theory Spec2Isabelle
  imports Main "HOL-Library.Word" "HOL-Library.Tree" "HOL-Library.Monad_Syntax"
begin

unbundle bit_operations_syntax

section \<open>Data model (avl.h)\<close>

text \<open>
  Node addresses are natural numbers, counted in units of one \<^verbatim>\<open>AVL_NODE\<close>, so that
  \<^verbatim>\<open>&n[i]\<close> is \<open>n + i\<close>. A node pointer is an optional address; \<open>None\<close> is \<^verbatim>\<open>NULL\<close>.
  A data pointer (\<^verbatim>\<open>void *d\<close>) is an optional value of the payload type; \<open>None\<close> is
  \<^verbatim>\<open>NULL\<close> again.
\<close>

type_synonym addr = nat
type_synonym ptr = "addr option"

definition AVL_MAX_DEPTH :: nat where
  "AVL_MAX_DEPTH = 64"

text \<open>
  \<^verbatim>\<open>struct AVL_NODE_S { struct AVL_NODE_S *l, *r; int8_t f; void *d; }\<close>.
  The fields are called \<open>node_l\<close>, \<open>node_r\<close>, \<open>node_f\<close> and \<open>node_d\<close> here.
\<close>

record 'a AVL_NODE =
  node_l :: ptr
  node_r :: ptr
  node_f :: "8 word"
  node_d :: "'a option"

text \<open>
  \<^verbatim>\<open>AVL_TREE\<close>: the fields \<^verbatim>\<open>top\<close>, \<^verbatim>\<open>height\<close> and \<^verbatim>\<open>size\<close> are
  called \<open>tree_top\<close>, \<open>tree_height\<close> and \<open>tree_size\<close>. The comparator \<^verbatim>\<open>eval\<close>
  and its \<^verbatim>\<open>user\<close> pointer are written once by \<^verbatim>\<open>AVL_newTree\<close> and never again;
  every operation below takes them as one parameter \<open>ev\<close>, the comparator with the user
  pointer already supplied.
\<close>

record AVL_TREE =
  freeStack :: ptr
  allocAtOnce :: int
  tree_top :: ptr
  tree_height :: int
  tree_size :: int

text \<open>
  The program state is the tree handle together with the memory the nodes live in.
  \<open>mem\<close> gives the contents of every node address. The backing memory system
  (\<^verbatim>\<open>malloc\<close>/\<^verbatim>\<open>free\<close>) is a bump allocator with a capacity: \<open>brk\<close> is the lowest
  address never handed out, \<open>avail\<close> the number of nodes that can still be allocated,
  and \<open>slabs\<close> the base addresses of the blocks that are currently allocated.
\<close>

record 'a state = AVL_TREE +
  mem :: "addr \<Rightarrow> 'a AVL_NODE"
  brk :: addr
  avail :: nat
  slabs :: "addr list"

type_synonym 'a eval = "'a option \<Rightarrow> 'a option \<Rightarrow> int"

subsection \<open>The flag byte\<close>

text \<open>
  Bits 6-4 of \<^verbatim>\<open>f\<close> hold the balance plus two, bit 3 marks the first node of an
  allocation, bit 2 a node that is in the tree, bit 1 a node scheduled for release.
\<close>

definition AVL_FLG_BAL :: "8 word" where
  "AVL_FLG_BAL = 0x70"

definition AVL_FLG_1ST :: nat where
  "AVL_FLG_1ST = 3"

definition AVL_FLG_USD :: nat where
  "AVL_FLG_USD = 2"

definition AVL_FLG_CLN :: nat where
  "AVL_FLG_CLN = 1"

definition AVL_getbal :: "8 word \<Rightarrow> int" where
  "AVL_getbal f = uint (drop_bit 4 (f AND AVL_FLG_BAL)) - 2"

definition AVL_setbal :: "8 word \<Rightarrow> int \<Rightarrow> 8 word" where
  "AVL_setbal f b = (f AND NOT AVL_FLG_BAL) OR push_bit 4 (word_of_int (b + 2))"

definition AVL_incbal :: "8 word \<Rightarrow> 8 word" where
  "AVL_incbal f = f + 0x10"

definition AVL_decbal :: "8 word \<Rightarrow> 8 word" where
  "AVL_decbal f = f - 0x10"

definition AVL_getbit :: "8 word \<Rightarrow> nat \<Rightarrow> 8 word" where
  "AVL_getbit f b = f AND push_bit b 1"

definition AVL_setbit :: "8 word \<Rightarrow> nat \<Rightarrow> 8 word" where
  "AVL_setbit f b = f OR push_bit b 1"

definition AVL_clrbit :: "8 word \<Rightarrow> nat \<Rightarrow> 8 word" where
  "AVL_clrbit f b = f AND NOT (push_bit b 1)"

subsection \<open>Field access\<close>

text \<open>Reading and writing one field of the node at an address.\<close>

definition bal :: "'a state \<Rightarrow> addr \<Rightarrow> int" where
  "bal s a = AVL_getbal (node_f (mem s a))"

definition set_l :: "addr \<Rightarrow> ptr \<Rightarrow> 'a state \<Rightarrow> 'a state" where
  "set_l a v s = s\<lparr>mem := (mem s)(a := (mem s a)\<lparr>node_l := v\<rparr>)\<rparr>"

definition set_r :: "addr \<Rightarrow> ptr \<Rightarrow> 'a state \<Rightarrow> 'a state" where
  "set_r a v s = s\<lparr>mem := (mem s)(a := (mem s a)\<lparr>node_r := v\<rparr>)\<rparr>"

definition set_f :: "addr \<Rightarrow> 8 word \<Rightarrow> 'a state \<Rightarrow> 'a state" where
  "set_f a v s = s\<lparr>mem := (mem s)(a := (mem s a)\<lparr>node_f := v\<rparr>)\<rparr>"

definition set_d :: "addr \<Rightarrow> 'a option \<Rightarrow> 'a state \<Rightarrow> 'a state" where
  "set_d a v s = s\<lparr>mem := (mem s)(a := (mem s a)\<lparr>node_d := v\<rparr>)\<rparr>"

definition set_bal :: "addr \<Rightarrow> int \<Rightarrow> 'a state \<Rightarrow> 'a state" where
  "set_bal a b s = set_f a (AVL_setbal (node_f (mem s a)) b) s"

definition inc_bal :: "addr \<Rightarrow> 'a state \<Rightarrow> 'a state" where
  "inc_bal a s = set_f a (AVL_incbal (node_f (mem s a))) s"

definition dec_bal :: "addr \<Rightarrow> 'a state \<Rightarrow> 'a state" where
  "dec_bal a s = set_f a (AVL_decbal (node_f (mem s a))) s"

section \<open>Memory management\<close>

text \<open>
  \<^verbatim>\<open>malloc(k * sizeof(AVL_NODE))\<close> and \<^verbatim>\<open>free(q)\<close> for a block of \<open>k\<close> nodes.
  An allocation fails exactly when it asks for more nodes than the memory system has left.
\<close>

definition malloc_nodes :: "nat \<Rightarrow> 'a state \<Rightarrow> ptr \<times> 'a state" where
  "malloc_nodes k s =
     (if k \<le> avail s
      then (Some (brk s), s\<lparr>brk := brk s + k, avail := avail s - k, slabs := brk s # slabs s\<rparr>)
      else (None, s))"

definition free_nodes :: "addr \<Rightarrow> nat \<Rightarrow> 'a state \<Rightarrow> 'a state" where
  "free_nodes q k s = s\<lparr>avail := avail s + k, slabs := remove1 q (slabs s)\<rparr>"

text \<open>
  \<^verbatim>\<open>AVL_newTree\<close>: the handle is zeroed, then the slab size is clamped to at least 1.
  \<open>ok\<close> says whether \<^verbatim>\<open>malloc\<close> could supply the handle.
\<close>

definition AVL_newTree :: "bool \<Rightarrow> int \<Rightarrow> AVL_TREE option" where
  "AVL_newTree ok n =
     (if ok
      then Some \<lparr>freeStack = None, allocAtOnce = (if n < 1 then 1 else n),
                 tree_top = None, tree_height = 0, tree_size = 0\<rparr>
      else None)"

text \<open>One step of the loop that pushes a fresh block onto the free stack.\<close>

definition push_node :: "addr \<Rightarrow> 'a state \<Rightarrow> 'a state" where
  "push_node a s = (set_r a (freeStack s) (set_f a 0 s))\<lparr>freeStack := Some a\<rparr>"

definition newNode_alloc :: "'a state \<Rightarrow> 'a state" where
  "newNode_alloc s =
     (case malloc_nodes (nat (allocAtOnce s)) s of
        (None, s1) \<Rightarrow> s1
      | (Some n, s1) \<Rightarrow>
          (let s2 = fold (\<lambda>i. push_node (n + i)) [0..<nat (allocAtOnce s1)] s1
           in set_f n (AVL_setbit (node_f (mem s2 n)) AVL_FLG_1ST) s2))"

definition AVL_newNode :: "'a state \<Rightarrow> ptr \<times> 'a state" where
  "AVL_newNode s =
     (let s1 = (if freeStack s = None then newNode_alloc s else s)
      in case freeStack s1 of
           None \<Rightarrow> (None, s1)
         | Some n \<Rightarrow>
             (let s2 = s1\<lparr>freeStack := node_r (mem s1 n)\<rparr>;
                  s3 = set_l n None s2;
                  s4 = set_r n None s3;
                  s5 = set_d n None s4;
                  s6 = set_bal n 0 s5;
                  s7 = set_f n (AVL_setbit (node_f (mem s6 n)) AVL_FLG_USD) s6
              in (Some n, s7\<lparr>tree_size := tree_size s7 + 1\<rparr>)))"

subsection \<open>\<^verbatim>\<open>AVL_dealloc\<close>\<close>

text \<open>
  Step 1 for one block: nodes are marked for cleaning from the first one on, until a node
  that is in the tree ends the loop; \<open>j\<close> counts the marked nodes.
\<close>

function dealloc_mark :: "addr \<Rightarrow> nat \<Rightarrow> nat \<Rightarrow> int \<Rightarrow> 'a state \<Rightarrow> int \<times> 'a state" where
  "dealloc_mark n i k j s =
     (if i < k then
        (if AVL_getbit (node_f (mem s (n + i))) AVL_FLG_USD = 0
         then dealloc_mark n (i + 1) k (j + 1)
                (set_f (n + i) (AVL_setbit (node_f (mem s (n + i))) AVL_FLG_CLN) s)
         else (j, s))
      else (j, s))"
  by pat_completeness auto
termination
  by (relation "measure (\<lambda>(n, i, k, j, s). k - i)") auto

definition dealloc_unmark :: "addr \<Rightarrow> nat \<Rightarrow> 'a state \<Rightarrow> 'a state" where
  "dealloc_unmark n k s =
     fold (\<lambda>i t. set_f (n + i) (AVL_clrbit (node_f (mem t (n + i))) AVL_FLG_CLN) t) [0..<k] s"

text \<open>
  The first run over the free list. \<open>l\<close> is the list of blocks to be freed, linked
  through the left pointers, \<open>c\<close> the number of nodes counted so far.
\<close>

partial_function (option) dealloc_scan ::
  "ptr \<Rightarrow> ptr \<Rightarrow> int \<Rightarrow> 'a state \<Rightarrow> (ptr \<times> int \<times> 'a state) option" where
  "dealloc_scan n l c s =
     (case n of
        None \<Rightarrow> Some (l, c, s)
      | Some a \<Rightarrow>
          if AVL_getbit (node_f (mem s a)) AVL_FLG_1ST \<noteq> 0 then
            (case dealloc_mark a 0 (nat (allocAtOnce s)) 0 s of
               (j, s1) \<Rightarrow>
                 if j = allocAtOnce s1
                 then dealloc_scan (node_r (mem (set_l a l s1) a)) (Some a)
                        (c + allocAtOnce s1) (set_l a l s1)
                 else dealloc_scan
                        (node_r (mem (dealloc_unmark a (nat (allocAtOnce s1)) s1) a)) l c
                        (dealloc_unmark a (nat (allocAtOnce s1)) s1))
          else dealloc_scan (node_r (mem s a)) l c s)"

declare dealloc_scan.simps [code]

text \<open>The second run takes every marked node out of the free list.\<close>

partial_function (option) dealloc_unlink :: "ptr \<Rightarrow> ptr \<Rightarrow> 'a state \<Rightarrow> 'a state option" where
  "dealloc_unlink n p s =
     (case n of
        None \<Rightarrow> Some s
      | Some a \<Rightarrow>
          if AVL_getbit (node_f (mem s a)) AVL_FLG_CLN \<noteq> 0 then
            (case p of
               Some pa \<Rightarrow>
                 dealloc_unlink (node_r (mem (set_r pa (node_r (mem s a)) s) a)) p
                   (set_r pa (node_r (mem s a)) s)
             | None \<Rightarrow>
                 dealloc_unlink (node_r (mem s a)) p (s\<lparr>freeStack := node_r (mem s a)\<rparr>))
          else dealloc_unlink (node_r (mem s a)) (Some a) s)"

declare dealloc_unlink.simps [code]

text \<open>The blocks on the list \<open>l\<close> go back to the memory system.\<close>

partial_function (option) dealloc_free :: "ptr \<Rightarrow> 'a state \<Rightarrow> 'a state option" where
  "dealloc_free l s =
     (case l of
        None \<Rightarrow> Some s
      | Some q \<Rightarrow> dealloc_free (node_l (mem s q)) (free_nodes q (nat (allocAtOnce s)) s))"

declare dealloc_free.simps [code]

definition AVL_dealloc :: "'a state \<Rightarrow> (int \<times> 'a state) option" where
  "AVL_dealloc s =
     do {
       (l, c, s1) \<leftarrow> dealloc_scan (freeStack s) None 0 s;
       if l \<noteq> None then
         do {
           s2 \<leftarrow> dealloc_unlink (freeStack s1) None s1;
           s3 \<leftarrow> dealloc_free l s2;
           Some (c, s3)
         }
       else Some (c, s1)
     }"

section \<open>Tree operations\<close>

text \<open>
  Loops that follow pointers are partial functions into \<open>option\<close>: the value \<open>None\<close>
  stands for a run that does not return, either because the loop never ends or because
  the code dereferences \<^verbatim>\<open>NULL\<close>.
\<close>

subsection \<open>\<^verbatim>\<open>AVL_find\<close>\<close>




subsection \<open>\<^verbatim>\<open>AVL_insert\<close>\<close>

text \<open>
  The search loop (A2-A5). \<open>c\<close> is the current node, \<open>b\<close> the balance node and \<open>p\<close> its
  parent. The result is the return code, the new node if one was added, and \<open>b\<close> and \<open>p\<close>.
\<close>

partial_function (option) insert_search ::
  "'a eval \<Rightarrow> 'a option \<Rightarrow> addr \<Rightarrow> addr \<Rightarrow> ptr \<Rightarrow> 'a state \<Rightarrow> (int \<times> ptr \<times> addr \<times> ptr \<times> 'a state) option"
  where
  "insert_search ev d c b p s =
     (if ev (node_d (mem s c)) d = 0 then Some (1, None, b, p, s)
      else if ev (node_d (mem s c)) d < 0 then
        (case node_l (mem s c) of
           Some cl \<Rightarrow>
             if bal s cl \<noteq> 0 then insert_search ev d cl cl (Some c) s
             else insert_search ev d cl b p s
         | None \<Rightarrow>
             (case AVL_newNode s of
                (Some n, s1) \<Rightarrow> Some (0, Some n, b, p, set_l c (Some n) (set_d n d s1))
              | (None, s1) \<Rightarrow> Some (2, None, b, p, s1)))
      else
        (case node_r (mem s c) of
           Some cr \<Rightarrow>
             if bal s cr \<noteq> 0 then insert_search ev d cr cr (Some c) s
             else insert_search ev d cr b p s
         | None \<Rightarrow>
             (case AVL_newNode s of
                (Some n, s1) \<Rightarrow> Some (0, Some n, b, p, set_r c (Some n) (set_d n d s1))
              | (None, s1) \<Rightarrow> Some (2, None, b, p, s1))))"

declare insert_search.simps [code]

text \<open>The run from the rotate node down to the new node \<open>n\<close>, setting the balances (A6).\<close>

partial_function (option) insert_adjust ::
  "'a eval \<Rightarrow> 'a option \<Rightarrow> addr \<Rightarrow> ptr \<Rightarrow> 'a state \<Rightarrow> 'a state option"
  where
  "insert_adjust ev d n c s =
     (case c of
        None \<Rightarrow> None
      | Some ca \<Rightarrow>
          if ca = n then Some s
          else if ev (node_d (mem s ca)) d < 0
          then insert_adjust ev d n (node_l (mem s ca)) (set_bal ca (- 1) s)
          else insert_adjust ev d n (node_r (mem s ca)) (set_bal ca 1 s))"

declare insert_adjust.simps [code]

text \<open>The single rotation (A8) of \<open>b\<close> with its child \<open>r\<close>; the result names the new subtree root.\<close>

definition insert_single :: "int \<Rightarrow> addr \<Rightarrow> addr \<Rightarrow> 'a state \<Rightarrow> addr \<times> 'a state" where
  "insert_single a b r s =
     (let s1 = (if a = - 1
                then set_r r (Some b) (set_l b (node_r (mem s r)) s)
                else set_l r (Some b) (set_r b (node_l (mem s r)) s))
      in (r, set_bal r 0 (set_bal b 0 s1)))"

text \<open>The double rotation (A9).\<close>

definition insert_double :: "int \<Rightarrow> addr \<Rightarrow> addr \<Rightarrow> 'a state \<Rightarrow> (addr \<times> 'a state) option" where
  "insert_double a b r s =
     do {
       c \<leftarrow> (if a = - 1 then node_r (mem s r) else node_l (mem s r));
       let s4 = (if a = - 1 then
                   (let s1 = set_r r (node_l (mem s c)) s;
                        s2 = set_l c (Some r) s1;
                        s3 = set_l b (node_r (mem s2 c)) s2
                    in set_r c (Some b) s3)
                 else
                   (let s1 = set_l r (node_r (mem s c)) s;
                        s2 = set_r c (Some r) s1;
                        s3 = set_r b (node_l (mem s2 c)) s2
                    in set_l c (Some b) s3));
       let s5 = (if bal s4 c = a then set_bal r 0 (set_bal b (- a) s4)
                 else if bal s4 c = 0 then set_bal r 0 (set_bal b 0 s4)
                 else set_bal r a (set_bal b 0 s4));
       Some (c, set_bal c 0 s5)
     }"

text \<open>
  Hooking a rotated subtree under the parent: \<open>x\<close> takes the place of \<open>a\<close> below \<open>p\<close>,
  or becomes the top of the tree when there is no parent.
\<close>

definition relink :: "ptr \<Rightarrow> addr \<Rightarrow> addr \<Rightarrow> 'a state \<Rightarrow> 'a state" where
  "relink p a x s =
     (case p of
        Some pa \<Rightarrow>
          if node_l (mem s pa) = Some a then set_l pa (Some x) s else set_r pa (Some x) s
      | None \<Rightarrow> s\<lparr>tree_top := Some x\<rparr>)"

text \<open>Steps A6 to A10, run when a node \<open>n\<close> was added.\<close>

definition insert_fix ::
  "'a eval \<Rightarrow> 'a option \<Rightarrow> addr \<Rightarrow> ptr \<Rightarrow> addr \<Rightarrow> 'a state \<Rightarrow> 'a state option" where
  "insert_fix ev d b p n s =
     (let a = (if ev (node_d (mem s b)) d < 0 then - 1 else 1);
          r = (if ev (node_d (mem s b)) d < 0 then node_l (mem s b) else node_r (mem s b))
      in do {
        s1 \<leftarrow> insert_adjust ev d n r s;
        if bal s1 b = 0 then Some ((set_bal b a s1)\<lparr>tree_height := tree_height s1 + 1\<rparr>)
        else if bal s1 b = - a then Some (set_bal b 0 s1)
        else do {
          ra \<leftarrow> r;
          (c, s2) \<leftarrow> (if bal s1 ra = a then Some (insert_single a b ra s1)
                      else insert_double a b ra s1);
          Some (relink p b c s2)
        }
      })"

definition AVL_insert :: "'a eval \<Rightarrow> 'a option \<Rightarrow> 'a state \<Rightarrow> (int \<times> 'a state) option" where
  "AVL_insert ev d s =
     (case tree_top s of
        None \<Rightarrow>
          (case AVL_newNode s of
             (Some c, s1) \<Rightarrow> Some (0, (set_d c d s1)\<lparr>tree_top := Some c, tree_height := 1\<rparr>)
           | (None, s1) \<Rightarrow> Some (2, s1))
      | Some c \<Rightarrow>
          do {
            (rc, n, b, p, s1) \<leftarrow> insert_search ev d c c None s;
            (case n of
               None \<Rightarrow> Some (rc, s1)
             | Some na \<Rightarrow> do { s2 \<leftarrow> insert_fix ev d b p na s1; Some (rc, s2) })
          })"

subsection \<open>\<^verbatim>\<open>AVL_delete\<close>\<close>

text \<open>
  The path stack \<^verbatim>\<open>AVL_NODE *stack[AVL_MAX_DEPTH]\<close> is a list of \<open>AVL_MAX_DEPTH\<close> node
  addresses; \<open>tp\<close> is the index \<^verbatim>\<open>top\<close> into it. An access outside the array is
  undefined in C: here it is a failure, the value \<open>None\<close>, so that a run with a result never
  reads or writes outside the array.
\<close>

definition stack_get :: "addr list \<Rightarrow> nat \<Rightarrow> addr option" where
  "stack_get stack i = (if i < length stack then Some (stack ! i) else None)"

definition stack_put :: "addr list \<Rightarrow> nat \<Rightarrow> addr \<Rightarrow> addr list option" where
  "stack_put stack i a = (if i < length stack then Some (stack[i := a]) else None)"

text \<open>The search loop records the path to the node that matches the key \<open>k\<close>.\<close>

partial_function (option) delete_search ::
  "'a eval \<Rightarrow> 'a option \<Rightarrow> 'a state \<Rightarrow> 'a option \<Rightarrow> ptr \<Rightarrow> ptr \<Rightarrow> addr list \<Rightarrow> nat \<Rightarrow>
     ('a option \<times> ptr \<times> ptr \<times> addr list \<times> nat) option"
  where
  "delete_search ev k s d c p stack tp =
     (case c of
        None \<Rightarrow> Some (d, c, p, stack, tp)
      | Some ca \<Rightarrow>
          if d = None \<and> tp < AVL_MAX_DEPTH then
            do {
              stack1 \<leftarrow> stack_put stack tp ca;
              if ev (node_d (mem s ca)) k = 0
              then delete_search ev k s (node_d (mem s ca)) c p stack1 tp
              else if ev (node_d (mem s ca)) k < 0
              then delete_search ev k s d (node_l (mem s ca)) (Some ca) stack1 (tp + 1)
              else delete_search ev k s d (node_r (mem s ca)) (Some ca) stack1 (tp + 1)
            }
          else Some (d, c, p, stack, tp))"

declare delete_search.simps [code]

text \<open>
  The matched node \<open>c\<close> has at most one subtree: that subtree takes its place. The result
  is the height change \<open>h\<close> and the new state.
\<close>

definition delete_leaf :: "addr \<Rightarrow> ptr \<Rightarrow> 'a state \<Rightarrow> int \<times> 'a state" where
  "delete_leaf c p s =
     (let sub = (if node_l (mem s c) = None then node_r (mem s c) else node_l (mem s c))
      in case p of
           Some pa \<Rightarrow>
             (let s1 = (if node_l (mem s pa) = Some c
                        then inc_bal pa (set_l pa sub s)
                        else dec_bal pa (set_r pa sub s))
              in (if bal s1 pa = 0 then - 1 else 0, s1))
         | None \<Rightarrow> (- 1, s\<lparr>tree_top := sub\<rparr>))"

text \<open>The runs down to the in-order successor and to the in-order predecessor.\<close>

function delete_succ ::
  "addr \<Rightarrow> addr \<Rightarrow> addr list \<Rightarrow> nat \<Rightarrow> 'a state \<Rightarrow> (addr \<times> addr \<times> addr list \<times> nat) option"
  where
  "delete_succ c p stack tp s =
     (case node_l (mem s c) of
        Some cl \<Rightarrow>
          if tp < AVL_MAX_DEPTH then
            (case stack_put stack tp c of
               Some stack1 \<Rightarrow> delete_succ cl c stack1 (tp + 1) s
             | None \<Rightarrow> None)
          else Some (c, p, stack, tp)
      | None \<Rightarrow> Some (c, p, stack, tp))"
  by pat_completeness auto
termination
  by (relation "measure (\<lambda>(c, p, stack, tp, s). AVL_MAX_DEPTH - tp)") auto

function delete_pred ::
  "addr \<Rightarrow> addr \<Rightarrow> addr list \<Rightarrow> nat \<Rightarrow> 'a state \<Rightarrow> (addr \<times> addr \<times> addr list \<times> nat) option"
  where
  "delete_pred c p stack tp s =
     (case node_r (mem s c) of
        Some cr \<Rightarrow>
          if tp < AVL_MAX_DEPTH then
            (case stack_put stack tp c of
               Some stack1 \<Rightarrow> delete_pred cr c stack1 (tp + 1) s
             | None \<Rightarrow> None)
          else Some (c, p, stack, tp)
      | None \<Rightarrow> Some (c, p, stack, tp))"
  by pat_completeness auto
termination
  by (relation "measure (\<lambda>(c, p, stack, tp, s). AVL_MAX_DEPTH - tp)") auto

text \<open>
  The matched node \<open>sc\<close> has two subtrees: an in-order neighbour \<open>c\<close> is cut out of the
  tree and put in the place of \<open>sc\<close>. The result is the stack, its top, the height change
  and the new state.
\<close>

definition delete_swap ::
  "addr \<Rightarrow> ptr \<Rightarrow> addr list \<Rightarrow> nat \<Rightarrow> 'a state \<Rightarrow> (addr list \<times> nat \<times> int \<times> 'a state) option" where
  "delete_swap sc sp stack cpos s =
     do {
       (c, p, stack1, tp1, sub) \<leftarrow>
         (if bal s sc > 0 then
            do {
              c0 \<leftarrow> node_r (mem s sc);
              (c, p, st, tp) \<leftarrow> delete_succ c0 sc stack (cpos + 1) s;
              Some (c, p, st, tp, node_r (mem s c))
            }
          else
            do {
              c0 \<leftarrow> node_l (mem s sc);
              (c, p, st, tp) \<leftarrow> delete_pred c0 sc stack (cpos + 1) s;
              Some (c, p, st, tp, node_l (mem s c))
            });
       let s1 = (if node_l (mem s p) = Some c
                 then inc_bal p (set_l p sub s)
                 else dec_bal p (set_r p sub s));
       let h = (if bal s1 p = 0 then - 1 else 0);
       let s2 = set_l c (node_l (mem s1 sc)) s1;
       let s3 = set_r c (node_r (mem s2 sc)) s2;
       let s4 = set_bal c (bal s3 sc) s3;
       let s5 = relink sp sc c s4;
       stack2 \<leftarrow> stack_put stack1 cpos c;
       Some (stack2, tp1, h, s5)
     }"

text \<open>The node taken out of the tree goes back to the free stack.\<close>

definition delete_release :: "addr \<Rightarrow> 'a state \<Rightarrow> 'a state" where
  "delete_release c s =
     (let s1 = set_f c (AVL_clrbit (node_f (mem s c)) AVL_FLG_USD) s;
          s2 = set_d c None s1;
          s3 = set_l c None s2;
          s4 = set_r c (freeStack s3) s3
      in s4\<lparr>freeStack := Some c, tree_size := tree_size s4 - 1\<rparr>)"

text \<open>
  The rotations of the rebalancing loop at a node \<open>a\<close> with parent \<open>p\<close>. The result is the
  root of the rotated subtree, the height change and the new state. First the case of
  balance 2 (heavy on the right), then its mirror image for balance -2.
\<close>

definition delete_rot_r :: "addr \<Rightarrow> ptr \<Rightarrow> 'a state \<Rightarrow> (addr \<times> int \<times> 'a state) option" where
  "delete_rot_r a p s =
     do {
       b \<leftarrow> node_r (mem s a);
       if bal s b \<ge> 0 then
         do {
           c \<leftarrow> node_r (mem s b);
           let s1 = set_l a (node_l (mem s a)) s;
           let s2 = set_r a (node_l (mem s b)) s1;
           let s3 = set_l b (Some a) s2;
           let s4 = set_r b (Some c) s3;
           let s5 = relink p a b s4;
           if bal s5 b = 0
           then Some (b, 0, set_bal b (- 1) (set_bal a 1 s5))
           else Some (b, - 1, set_bal b 0 (set_bal a 0 s5))
         }
       else
         do {
           c \<leftarrow> node_l (mem s b);
           let s1 = set_l c (Some a) s;
           let s2 = set_r c (Some b) s1;
           let s3 = set_r a (node_l (mem s c)) s2;
           let s4 = set_l b (node_r (mem s c)) s3;
           let s5 = relink p a c s4;
           let s6 = (if bal s5 c = - 1 then set_bal b 1 (set_bal a 0 s5)
                     else if bal s5 c = 0 then set_bal b 0 (set_bal a 0 s5)
                     else set_bal b 0 (set_bal a (- 1) s5));
           Some (c, - 1, set_bal c 0 s6)
         }
     }"

definition delete_rot_l :: "addr \<Rightarrow> ptr \<Rightarrow> 'a state \<Rightarrow> (addr \<times> int \<times> 'a state) option" where
  "delete_rot_l a p s =
     do {
       b \<leftarrow> node_l (mem s a);
       if bal s b \<le> 0 then
         do {
           c \<leftarrow> node_l (mem s b);
           let s1 = set_r a (node_r (mem s a)) s;
           let s2 = set_l a (node_r (mem s b)) s1;
           let s3 = set_r b (Some a) s2;
           let s4 = set_l b (Some c) s3;
           let s5 = relink p a b s4;
           if bal s5 b = 0
           then Some (b, 0, set_bal b 1 (set_bal a (- 1) s5))
           else Some (b, - 1, set_bal b 0 (set_bal a 0 s5))
         }
       else
         do {
           c \<leftarrow> node_r (mem s b);
           let s1 = set_r c (Some a) s;
           let s2 = set_l c (Some b) s1;
           let s3 = set_l a (node_r (mem s c)) s2;
           let s4 = set_r b (node_l (mem s c)) s3;
           let s5 = relink p a c s4;
           let s6 = (if bal s5 c = 1 then set_bal b (- 1) (set_bal a 0 s5)
                     else if bal s5 c = 0 then set_bal b 0 (set_bal a 0 s5)
                     else set_bal b 0 (set_bal a 1 s5));
           Some (c, - 1, set_bal c 0 s6)
         }
     }"

text \<open>
  The rebalancing loop walks the stack from \<open>tp\<close> down to the root; the argument counts
  \<open>tp\<close> down, so the recursion is structural. The result is the last height change.
\<close>

fun delete_rebalance :: "nat \<Rightarrow> addr list \<Rightarrow> int \<Rightarrow> 'a state \<Rightarrow> (int \<times> 'a state) option" where
  "delete_rebalance 0 stack h s = Some (h, s)"
| "delete_rebalance (Suc tp) stack h s =
     do {
        a \<leftarrow> stack_get stack tp;
        p \<leftarrow> (if tp > 0 then map_option Some (stack_get stack (tp - 1)) else Some None);
        (a1, h1, s1) \<leftarrow>
          (if bal s a = 2 then delete_rot_r a p s
           else if bal s a = - 2 then delete_rot_l a p s
           else Some (a, h, s));
        (if h1 \<noteq> 0 then
           (case p of
              Some pa \<Rightarrow>
                (let s2 = (if node_l (mem s1 pa) = Some a1 then inc_bal pa s1 else dec_bal pa s1)
                 in delete_rebalance tp stack (if bal s2 pa = 0 then - 1 else 0) s2)
            | None \<Rightarrow> delete_rebalance tp stack h1 s1)
         else delete_rebalance tp stack h1 s1)
     }"

text \<open>
  \<^verbatim>\<open>AVL_delete\<close> returns the data pointer of the node taken out, or \<^verbatim>\<open>NULL\<close>. The
  stack is not initialised in the source; here it starts filled with the address 0.
\<close>

definition AVL_delete :: "'a eval \<Rightarrow> 'a option \<Rightarrow> 'a state \<Rightarrow> ('a option \<times> 'a state) option" where
  "AVL_delete ev k s =
     (case tree_top s of
        None \<Rightarrow> Some (None, s)
      | Some t \<Rightarrow>
          do {
            (d, c, p, stack, tp) \<leftarrow>
              delete_search ev k s None (Some t) None (replicate AVL_MAX_DEPTH 0) 0;
            if d = None then Some (None, s)
            else
              do {
                ca \<leftarrow> c;
                (stack1, tp1, h, s1) \<leftarrow>
                  (if node_l (mem s ca) = None \<or> node_r (mem s ca) = None
                   then (case delete_leaf ca p s of (h, s1) \<Rightarrow> Some (stack, tp, h, s1))
                   else delete_swap ca p stack tp s);
                (h2, s3) \<leftarrow> delete_rebalance tp1 stack1 h (delete_release ca s1);
                Some (d, if h2 < 0 then s3\<lparr>tree_height := tree_height s3 - 1\<rparr> else s3)
              }
          })"

section \<open>Testing and validation\<close>




text \<open>\<^verbatim>\<open>AVL_checkBalance\<close>: the height of the subtree, or -1 on a balance error.\<close>

partial_function (option) AVL_checkBalance :: "'a state \<Rightarrow> ptr \<Rightarrow> int option" where
  "AVL_checkBalance s n =
     (case n of
        None \<Rightarrow> Some 0
      | Some a \<Rightarrow>
          do {
            l \<leftarrow> AVL_checkBalance s (node_l (mem s a));
            r \<leftarrow> AVL_checkBalance s (node_r (mem s a));
            if l = - 1 \<or> r = - 1 then Some (- 1)
            else if r - l \<noteq> bal s a \<or> r - l < - 1 \<or> r - l > 1 then Some (- 1)
            else if r - l > 0 then Some (r + 1)
            else Some (l + 1)
          })"

declare AVL_checkBalance.simps [code]

section \<open>Abstraction and example states\<close>

text \<open>
  The shape of the structure below a pointer: \<open>is_tree m p t\<close> says that following the
  left and right pointers from \<open>p\<close> in the memory \<open>m\<close> gives exactly the binary tree \<open>t\<close>
  of node addresses.
\<close>

fun is_tree :: "(addr \<Rightarrow> 'a AVL_NODE) \<Rightarrow> ptr \<Rightarrow> addr tree \<Rightarrow> bool" where
  "is_tree m p Leaf = (p = None)"
| "is_tree m p (Node l a r) =
     (p = Some a \<and> is_tree m (node_l (m a)) l \<and> is_tree m (node_r (m a)) r)"

text \<open>The nodes a search for the key \<open>k\<close> visits, in order, up to a match.\<close>

fun spath :: "'a eval \<Rightarrow> (addr \<Rightarrow> 'a AVL_NODE) \<Rightarrow> 'a option \<Rightarrow> addr tree \<Rightarrow> addr list" where
  "spath ev m k Leaf = []"
| "spath ev m k (Node l a r) =
     a # (if ev (node_d (m a)) k < 0 then spath ev m k l
          else if ev (node_d (m a)) k > 0 then spath ev m k r
          else [])"


text \<open>
  \<^verbatim>\<open>AVL_exampleEval\<close> of avl.h reads the \<^verbatim>\<open>int\<close> behind each data pointer and returns
  the difference \<^verbatim>\<open>*data2 - *data1\<close>, 32 bits wide: the subtraction wraps around, and the
  result is read as a signed number. Reading through \<^verbatim>\<open>NULL\<close> ends the program; that is
  the value \<open>None\<close>.
\<close>

definition AVL_exampleEval :: "32 word option \<Rightarrow> 32 word option \<Rightarrow> int option" where
  "AVL_exampleEval data1 data2 =
     (case (data1, data2) of
        (Some x, Some y) \<Rightarrow> Some (sint (y - x))
      | _ \<Rightarrow> None)"

text \<open>
  The operations take a comparator that returns. \<open>example_eval\<close> is \<^verbatim>\<open>AVL_exampleEval\<close>
  as such a comparator: it has the result of \<^verbatim>\<open>AVL_exampleEval\<close> where there is one, and
  nothing is known about it where \<^verbatim>\<open>AVL_exampleEval\<close> ends the program.
\<close>

definition example_eval :: "32 word eval" where
  "example_eval data1 data2 = the (AVL_exampleEval data1 data2)"



text \<open>A tree of one node, holding 5, in a memory that cannot supply another block.\<close>

definition one_node_state :: "32 word state" where
  "one_node_state =
     \<lparr>freeStack = None, allocAtOnce = 1, tree_top = Some 0, tree_height = 1, tree_size = 1,
      mem = (\<lambda>a. \<lparr>node_l = None, node_r = None, node_f = 0x2C, node_d = Some 5\<rparr>),
      brk = 1, avail = 0, slabs = [0]\<rparr>"


subsection \<open>The search path as a specification\<close>



subsection \<open>The walk as a specification\<close>


section \<open>Properties of the flag byte\<close>

text \<open>
  A flag byte has 256 values, so a property of one byte can be checked on each of them.
\<close>

lemma all_flags: 
  assumes "\<forall>n\<in>set [0..<256]. P (word_of_nat n :: 8 word)" shows "P f"
proof -
  have "unat f < 256" using unsigned_less[of f] by simp
  with assms have "P (word_of_nat (unat f))" by (metis atLeastLessThan_iff set_upt zero_le)
  then show ?thesis by simp
qed

lemma bal_mask: "(0x70 :: 8 word) = push_bit 4 (mask 3)"
  by (simp add: mask_eq_exp_minus_1)

lemma bal_cases: "- 2 \<le> b \<Longrightarrow> b \<le> 5 \<Longrightarrow> b = - 2 \<or> b = - 1 \<or> b = 0 \<or> b = 1 \<or> b = 2 \<or> b = 3 \<or> b = 4 \<or> b = (5::int)"
  by arith

lemma getbal_range: "- 2 \<le> AVL_getbal f \<and> AVL_getbal f \<le> 5"
  by (rule all_flags[where f=f]) code_simp

lemma getbal_setbal_aux: "drop_bit 4 (((f AND NOT (push_bit 4 (mask 3))) OR push_bit 4 w) AND push_bit 4 (mask 3)) = (take_bit 3 w :: 8 word)"
  by (rule bit_word_eqI) (auto simp: bit_simps)

lemma getbal_setbal:
  assumes "- 2 \<le> b" "b \<le> 5" shows "AVL_getbal (AVL_setbal f b) = b"
proof -
  have "AVL_getbal (AVL_setbal f b) = uint (take_bit 3 (word_of_int (b + 2) :: 8 word)) - 2"
    unfolding AVL_getbal_def AVL_setbal_def AVL_FLG_BAL_def bal_mask getbal_setbal_aux ..
  moreover have "uint (take_bit 3 (word_of_int (b + 2) :: 8 word)) = b + 2"
    using bal_cases[OF assms] by auto
  ultimately show ?thesis by simp
qed

lemma getbit_setbal: "b < 4 \<Longrightarrow> AVL_getbit (AVL_setbal f v) b = AVL_getbit f b"
  unfolding AVL_getbit_def AVL_setbal_def AVL_FLG_BAL_def bal_mask
  by (rule bit_word_eqI) (auto simp: bit_simps)

lemma getbal_setbit: "b < 4 \<Longrightarrow> AVL_getbal (AVL_setbit f b) = AVL_getbal f"
  unfolding AVL_getbal_def AVL_setbit_def AVL_FLG_BAL_def bal_mask
  by (rule arg_cong[where f="\<lambda>x. uint x - 2"], rule bit_word_eqI) (auto simp: bit_simps)

lemma getbal_clrbit: "b < 4 \<Longrightarrow> AVL_getbal (AVL_clrbit f b) = AVL_getbal f"
  unfolding AVL_getbal_def AVL_clrbit_def AVL_FLG_BAL_def bal_mask
  by (rule arg_cong[where f="\<lambda>x. uint x - 2"], rule bit_word_eqI) (auto simp: bit_simps)

lemma getbit_setbit: "AVL_getbit (AVL_setbit f b) c = (if c = b then push_bit b 1 else AVL_getbit f c)"
  unfolding AVL_getbit_def AVL_setbit_def
  by (rule bit_word_eqI) (auto simp: bit_simps)

lemma getbit_clrbit: "AVL_getbit (AVL_clrbit f b) c = (if c = b then 0 else AVL_getbit f c)"
  unfolding AVL_getbit_def AVL_clrbit_def
  by (rule bit_word_eqI) (auto simp: bit_simps)

lemma push_bit1_nz: "b < 8 \<Longrightarrow> (push_bit b 1 :: 8 word) \<noteq> 0"
  by (auto simp: bit_eq_iff bit_simps)

lemma incbal_setbal_aux: "AVL_getbal f < 5 \<longrightarrow> AVL_incbal f = AVL_setbal f (AVL_getbal f + 1)"
  by (rule all_flags[where f=f]) code_simp

lemma decbal_setbal_aux: "- 2 < AVL_getbal f \<longrightarrow> AVL_decbal f = AVL_setbal f (AVL_getbal f - 1)"
  by (rule all_flags[where f=f]) code_simp

lemma setbal_getbal: "AVL_setbal f (AVL_getbal f) = f"
  by (rule all_flags[where f=f]) code_simp

lemma setbal_setbal_aux: "((f AND NOT (push_bit 4 (mask 3))) OR push_bit 4 (take_bit 3 v)) AND NOT (push_bit 4 (mask 3)) = (f AND NOT (push_bit 4 (mask 3)) :: 8 word)"
  by (rule bit_word_eqI) (auto simp: bit_simps)

lemma getbit_zero: "AVL_getbit 0 b = 0"
  by (simp add: AVL_getbit_def)


section \<open>Creating a tree\<close>

text \<open>
  C9. For every slab size below 1, \<^verbatim>\<open>AVL_newTree\<close> does not reject the argument: it
  behaves as for slab size 1, and when the handle can be allocated it returns the empty
  tree whose slab size is 1.
\<close>

theorem newTree_clamps_slab_size:
  "n < 1 \<Longrightarrow>
     AVL_newTree ok n = AVL_newTree ok 1 \<and>
     AVL_newTree True n =
       Some \<lparr>freeStack = None, allocAtOnce = 1, tree_top = None, tree_height = 0, tree_size = 0\<rparr>"
  by (simp add: AVL_newTree_def)

theorem newTree_clamps_slab_size_witness:
  "(- 5 :: int) < 1 \<and>
   AVL_newTree False (- 5) = AVL_newTree False 1 \<and>
   AVL_newTree True (- 5) =
     Some \<lparr>freeStack = None, allocAtOnce = 1, tree_top = None, tree_height = 0, tree_size = 0\<rparr>"
  using newTree_clamps_slab_size [of "- 5" False] by simp

section \<open>The search loops\<close>

lemma stack_put_ok: "i < length stack \<Longrightarrow> stack_put stack i a = Some (stack[i := a])"
  by (simp add: stack_put_def)

lemma take_put: "tp < length stack \<Longrightarrow> take (Suc tp) (stack[tp := a]) = take tp stack @ [a]"
  by (simp add: take_Suc_conv_app_nth)

lemma delete_search_step_l:
  assumes "ev (node_d (mem s a)) k < 0" "tp < AVL_MAX_DEPTH" "length stack = AVL_MAX_DEPTH"
  shows "delete_search ev k s None (Some a) p stack tp =
         delete_search ev k s None (node_l (mem s a)) (Some a) (stack[tp := a]) (tp + 1)"
  using assms by (subst delete_search.simps) (simp add: stack_put_ok)

lemma delete_search_step_r:
  assumes "ev (node_d (mem s a)) k > 0" "tp < AVL_MAX_DEPTH" "length stack = AVL_MAX_DEPTH"
  shows "delete_search ev k s None (Some a) p stack tp =
         delete_search ev k s None (node_r (mem s a)) (Some a) (stack[tp := a]) (tp + 1)"
  using assms by (subst delete_search.simps) (simp add: stack_put_ok)


lemma delete_search_stop:
  "delete_search ev k s None (Some a) p stack AVL_MAX_DEPTH = Some (None, Some a, p, stack, AVL_MAX_DEPTH)"
  by (subst delete_search.simps) simp

lemma delete_search_null:
  "delete_search ev k s d None p stack tp = Some (d, None, p, stack, tp)"
  by (subst delete_search.simps) simp

text \<open>The search of the delete when no node on the path matches and the path fits the stack.\<close>

lemma delete_search_miss:
  assumes "is_tree (mem s) c t" "\<forall>a\<in>set (spath ev (mem s) k t). ev (node_d (mem s a)) k \<noteq> 0"
    "length stack = AVL_MAX_DEPTH" "tp + length (spath ev (mem s) k t) \<le> AVL_MAX_DEPTH"
  shows "delete_search ev k s None c p stack tp =
         Some (None, None, last (p # map Some (spath ev (mem s) k t)),
               take tp stack @ spath ev (mem s) k t @
                 drop (tp + length (spath ev (mem s) k t)) stack,
               tp + length (spath ev (mem s) k t))"
  using assms
proof (induction t arbitrary: c p stack tp)
  case Leaf
  then show ?case by (simp add: delete_search_null)
next
  case (Node l a r)
  from Node.prems have c: "c = Some a" and l: "is_tree (mem s) (node_l (mem s a)) l"
    and r: "is_tree (mem s) (node_r (mem s a)) r" and e: "ev (node_d (mem s a)) k \<noteq> 0"
    and tp: "tp < AVL_MAX_DEPTH" and len: "length (stack[tp := a]) = AVL_MAX_DEPTH" by auto
  show ?case
  proof (cases "ev (node_d (mem s a)) k < 0")
    case True
    then have sp: "spath ev (mem s) k (Node l a r) = a # spath ev (mem s) k l" by simp
    have m: "\<forall>a\<in>set (spath ev (mem s) k l). ev (node_d (mem s a)) k \<noteq> 0"
      using Node.prems(2) sp by simp
    have b: "tp + 1 + length (spath ev (mem s) k l) \<le> AVL_MAX_DEPTH"
      using Node.prems(4) sp by simp
    show ?thesis
      unfolding c delete_search_step_l[where ev = ev and s = s and a = a and k = k, OF True tp Node.prems(3)] sp
      using Node.IH(1)[OF l m len b, of "Some a"] tp Node.prems(3)
      by (simp add: take_put drop_update_cancel)
  next
    case False
    with e have g: "ev (node_d (mem s a)) k > 0" by simp
    then have sp: "spath ev (mem s) k (Node l a r) = a # spath ev (mem s) k r" by simp
    have m: "\<forall>a\<in>set (spath ev (mem s) k r). ev (node_d (mem s a)) k \<noteq> 0"
      using Node.prems(2) sp by simp
    have b: "tp + 1 + length (spath ev (mem s) k r) \<le> AVL_MAX_DEPTH"
      using Node.prems(4) sp by simp
    show ?thesis
      unfolding c delete_search_step_r[where ev = ev and s = s and a = a and k = k, OF g tp Node.prems(3)] sp
      using Node.IH(2)[OF r m len b, of "Some a"] tp Node.prems(3)
      by (simp add: take_put drop_update_cancel)
  qed
qed


text \<open>The search of the delete when the path does not fit the stack.\<close>

lemma delete_search_deep:
  assumes "is_tree (mem s) c t" "tp \<le> AVL_MAX_DEPTH" "length stack = AVL_MAX_DEPTH"
    "length (spath ev (mem s) k t) > AVL_MAX_DEPTH - tp"
  shows "delete_search ev k s None c p stack tp =
         Some (None, Some (spath ev (mem s) k t ! (AVL_MAX_DEPTH - tp)),
               last (p # map Some (take (AVL_MAX_DEPTH - tp) (spath ev (mem s) k t))),
               take tp stack @ take (AVL_MAX_DEPTH - tp) (spath ev (mem s) k t),
               AVL_MAX_DEPTH)"
  using assms
proof (induction t arbitrary: c p stack tp)
  case Leaf
  then show ?case by simp
next
  case (Node l a r)
  from Node.prems have c: "c = Some a" and l: "is_tree (mem s) (node_l (mem s a)) l"
    and r: "is_tree (mem s) (node_r (mem s a)) r"
    and len: "length (stack[tp := a]) = AVL_MAX_DEPTH" by auto
  show ?case
  proof (cases "tp < AVL_MAX_DEPTH")
    case False
    with Node.prems(2) have "tp = AVL_MAX_DEPTH" by simp
    then show ?thesis using c Node.prems(3) by (simp add: delete_search_stop)
  next
    case tp: True
    then have d: "AVL_MAX_DEPTH - tp = Suc (AVL_MAX_DEPTH - (tp + 1))" by simp
    consider (lt) "ev (node_d (mem s a)) k < 0" | (gt) "ev (node_d (mem s a)) k > 0"
      | (eq) "ev (node_d (mem s a)) k = 0" by linarith
    then show ?thesis
    proof cases
      case eq
      with Node.prems(4) tp show ?thesis by simp
    next
      case lt
      then have sp: "spath ev (mem s) k (Node l a r) = a # spath ev (mem s) k l" by simp
      have b: "length (spath ev (mem s) k l) > AVL_MAX_DEPTH - (tp + 1)"
        using Node.prems(4) sp tp by simp
      have t1: "tp + 1 \<le> AVL_MAX_DEPTH" using tp by simp
      show ?thesis
        unfolding c delete_search_step_l[where ev = ev and s = s and a = a and k = k, OF lt tp Node.prems(3)] sp d
        using Node.IH(1)[OF l t1 len b, of "Some a"] tp Node.prems(3)
        by (simp add: take_put)
    next
      case gt
      then have sp: "spath ev (mem s) k (Node l a r) = a # spath ev (mem s) k r" by simp
      have b: "length (spath ev (mem s) k r) > AVL_MAX_DEPTH - (tp + 1)"
        using Node.prems(4) sp tp by simp
      have t1: "tp + 1 \<le> AVL_MAX_DEPTH" using tp by simp
      show ?thesis
        unfolding c delete_search_step_r[where ev = ev and s = s and a = a and k = k, OF gt tp Node.prems(3)] sp d
        using Node.IH(2)[OF r t1 len b, of "Some a"] tp Node.prems(3)
        by (simp add: take_put)
    qed
  qed
qed

section \<open>Failed mutations\<close>

lemma newNode_None:
  assumes "allocAtOnce s \<ge> 1" "AVL_newNode s = (None, s')" shows "s' = s"
proof (cases "freeStack s")
  case None
  show ?thesis
  proof (cases "nat (allocAtOnce s) \<le> avail s")
    case True
    obtain k where k: "nat (allocAtOnce s) = Suc k" using assms(1) by (cases "nat (allocAtOnce s)") auto
    have "freeStack (newNode_alloc s) \<noteq> None"
      using True by (simp add: newNode_alloc_def malloc_nodes_def k push_node_def set_f_def set_r_def Let_def)
    with assms(2) None show ?thesis by (auto simp: AVL_newNode_def Let_def split: option.splits)
  next
    case False
    then have "newNode_alloc s = s" by (simp add: newNode_alloc_def malloc_nodes_def)
    with assms(2) None show ?thesis by (auto simp: AVL_newNode_def Let_def split: option.splits)
  qed
next
  case (Some a)
  with assms(2) show ?thesis by (auto simp: AVL_newNode_def Let_def split: option.splits)
qed

lemma insert_search_fail_aux:
  assumes "insert_search ev d c b p s = Some y"
  shows "allocAtOnce s \<ge> 1 \<longrightarrow>
         (case y of (rc, n, b', p', s') \<Rightarrow>
            (rc \<noteq> 0 \<longrightarrow> n = None \<and> s' = s) \<and> (rc = 0 \<longrightarrow> n \<noteq> None))"
  by (rule insert_search.raw_induct
        [where P = "\<lambda>ev d c b p s y. allocAtOnce s \<ge> 1 \<longrightarrow>
           (case y of (rc, n, b', p', s') \<Rightarrow>
              (rc \<noteq> 0 \<longrightarrow> n = None \<and> s' = s) \<and> (rc = 0 \<longrightarrow> n \<noteq> None))", OF _ assms])
     (auto split: if_splits option.splits prod.splits dest: newNode_None)

lemma insert_search_fail:
  assumes "allocAtOnce s \<ge> 1" "insert_search ev d c b p s = Some (rc, n, b', p', s')"
  shows "(rc \<noteq> 0 \<longrightarrow> n = None \<and> s' = s) \<and> (rc = 0 \<longrightarrow> n \<noteq> None)"
  using insert_search_fail_aux[OF assms(2)] assms(1) by simp

lemma insert_fail_unchanged:
  assumes "allocAtOnce s \<ge> 1" "AVL_insert ev d s = Some (rc, s')" "rc \<noteq> 0"
  shows "s' = s"
  using assms
  by (auto simp: AVL_insert_def split: option.splits prod.splits Option.bind_splits dest: newNode_None insert_search_fail)

lemma delete_notfound_unchanged:
  assumes "AVL_delete ev k s = Some (None, s')" shows "s' = s"
  using assms
  by (auto simp: AVL_delete_def split: option.splits prod.splits Option.bind_splits if_splits)


lemma spath_subset: "set (spath ev m k t) \<subseteq> set_tree t"
  by (induction t) auto

lemma delete_search_absent:
  assumes "is_tree (mem s) c t" "\<forall>a\<in>set_tree t. ev (node_d (mem s a)) k \<noteq> 0"
    "length stack = AVL_MAX_DEPTH" "tp \<le> AVL_MAX_DEPTH"
  shows "\<exists>c' p' st tp'. delete_search ev k s None c p stack tp = Some (None, c', p', st, tp')"
proof (cases "tp + length (spath ev (mem s) k t) \<le> AVL_MAX_DEPTH")
  case True
  have "\<forall>a\<in>set (spath ev (mem s) k t). ev (node_d (mem s a)) k \<noteq> 0"
    using assms(2) spath_subset[of ev "mem s" k t] by auto
  from delete_search_miss[OF assms(1) this assms(3) True] show ?thesis by simp
next
  case False
  then have "length (spath ev (mem s) k t) > AVL_MAX_DEPTH - tp" using assms(4) by linarith
  from delete_search_deep[OF assms(1) assms(4) assms(3) this] show ?thesis by simp
qed

lemma delete_absent:
  assumes "is_tree (mem s) (tree_top s) t" "\<forall>a\<in>set_tree t. ev (node_d (mem s a)) k \<noteq> 0"
  shows "AVL_delete ev k s = Some (None, s)"
proof (cases "tree_top s")
  case None
  then show ?thesis by (simp add: AVL_delete_def)
next
  case (Some a)
  from delete_search_absent[where p = None and stack = "replicate AVL_MAX_DEPTH 0" and tp = 0
        and s = s and c = "tree_top s" and t = t and ev = ev and k = k] assms Some
  show ?thesis by (auto simp: AVL_delete_def)
qed


lemma one_node_insert_dup:
  "AVL_insert example_eval (Some 5) one_node_state = Some (1, one_node_state)"
  by (simp add: AVL_insert_def one_node_state_def insert_search.simps example_eval_def AVL_exampleEval_def)

lemma one_node_insert_nomem:
  "AVL_insert example_eval (Some 9) one_node_state = Some (2, one_node_state)"
  by (simp add: AVL_insert_def one_node_state_def insert_search.simps example_eval_def AVL_exampleEval_def
      AVL_newNode_def newNode_alloc_def malloc_nodes_def)

lemma one_node_tree: "is_tree (mem one_node_state) (tree_top one_node_state) (Node Leaf 0 Leaf)"
  by (simp add: one_node_state_def)

text \<open>
  C4. With a slab size of at least 1, an insert that returns already-present (1) or
  allocation-failure (2) leaves the whole state as it was, and so does a delete that returns
  not-found: root, links, balances, size, height and free list are unchanged. Deleting a
  key that no node of the tree matches returns not-found twice in a row, with the state
  unchanged.
\<close>

theorem failed_mutation_unchanged:
  assumes "allocAtOnce s \<ge> 1"
  shows "(AVL_insert ev d s = Some (rc, s') \<and> rc \<noteq> 0 \<longrightarrow> s' = s) \<and>
         (AVL_delete ev k s = Some (None, s'') \<longrightarrow> s'' = s) \<and>
         (is_tree (mem s) (tree_top s) t \<and> (\<forall>a\<in>set_tree t. ev (node_d (mem s a)) k \<noteq> 0) \<longrightarrow>
            do { (r1, s1) \<leftarrow> AVL_delete ev k s;
                 (r2, s2) \<leftarrow> AVL_delete ev k s1;
                 Some (r1, r2, s2) } = Some (None, None, s))"
  using assms
  by (auto dest: insert_fail_unchanged delete_notfound_unchanged simp: delete_absent)

theorem failed_mutation_unchanged_witness:
  "allocAtOnce one_node_state \<ge> 1 \<and>
   AVL_insert example_eval (Some 5) one_node_state = Some (1, one_node_state) \<and>
   AVL_insert example_eval (Some 9) one_node_state = Some (2, one_node_state) \<and>
   AVL_delete example_eval (Some 7) one_node_state = Some (None, one_node_state) \<and>
   is_tree (mem one_node_state) (tree_top one_node_state) (Node Leaf 0 Leaf) \<and>
   example_eval (node_d (mem one_node_state 0)) (Some 7) \<noteq> 0 \<and>
   do { (r1, s1) \<leftarrow> AVL_delete example_eval (Some 7) one_node_state;
        (r2, s2) \<leftarrow> AVL_delete example_eval (Some 7) s1;
        Some (r1, r2, s2) } = Some (None, None, one_node_state)"
proof -
  have a: "allocAtOnce one_node_state \<ge> 1" by (simp add: one_node_state_def)
  have e: "example_eval (node_d (mem one_node_state 0)) (Some 7) \<noteq> 0"
    by (simp add: one_node_state_def example_eval_def AVL_exampleEval_def)
  have d: "AVL_delete example_eval (Some 7) one_node_state = Some (None, one_node_state)"
    by (simp add: AVL_delete_def one_node_state_def delete_search.simps example_eval_def AVL_exampleEval_def
        AVL_MAX_DEPTH_def stack_put_def)
  from failed_mutation_unchanged[OF a, of example_eval "Some 5" 1 one_node_state "Some 7"
      one_node_state "Node Leaf 0 Leaf"] one_node_tree e a d one_node_insert_dup
      one_node_insert_nomem
  show ?thesis by simp
qed

section \<open>Comparator calls\<close>























section \<open>The walk\<close>















section \<open>The depth limit\<close>
















end
